theory Spec2Isabelle
  imports Main
begin

section \<open>Exceptions and outcomes of a call\<close>

text \<open>
  The header stores failures as \<^verbatim>\<open>std::exception_ptr\<close>. Such a pointer is an ordinary
  copyable object: it is null or refers to a captured exception object, and it can itself
  be thrown by value (\<^verbatim>\<open>throw e;\<close>), which is not the same as rethrowing the exception it
  refers to (\<^verbatim>\<open>std::rethrow_exception(e)\<close>). An exception object in flight is therefore
  either an object thrown by client code (of some type \<open>'x\<close>) or an exception pointer.
\<close>

datatype 'x thrown =
    Object 'x
  | Pointer "'x thrown option"

type_synonym 'x exception_ptr = "'x thrown option"

text \<open>
  \<^verbatim>\<open>std::current_exception()\<close>, called in a handler while the exception \<open>x\<close> is being
  handled: a non-null pointer that refers to \<open>x\<close>.
\<close>

definition current_exception :: "'x thrown \<Rightarrow> 'x exception_ptr" where
  "current_exception x = Some x"

text \<open>
  What a call does besides changing the state: it returns a result, it leaves by an
  exception, or it has undefined behaviour (for this header: control flows off the end
  of a function whose return type is not \<^verbatim>\<open>void\<close>, so that no value is returned).
\<close>

datatype ('r, 'x) outcome =
    Returns 'r
  | Throws "'x thrown"
  | Undefined_behaviour

text \<open>A computation on a state \<open>'s\<close>: the outcome and the state it leaves.\<close>

type_synonym ('s, 'r, 'x) comp = "'s \<Rightarrow> ('r, 'x) outcome \<times> 's"

text \<open>The result of a call that returned, passed through \<open>h\<close>; other outcomes as they are.\<close>

fun result_as :: "('r \<Rightarrow> 'q) \<Rightarrow> ('r, 'x) outcome \<Rightarrow> ('q, 'x) outcome" where
  "result_as h (Returns r) = Returns (h r)"
| "result_as h (Throws x) = Throws x"
| "result_as h Undefined_behaviour = Undefined_behaviour"

text \<open>
  The classes are templates over \<^verbatim>\<open>T\<close>, and they construct objects of type \<^verbatim>\<open>T\<close> with
  \<^verbatim>\<open>T\<close>'s own copy and move constructors, which are parameters here. A copy constructor
  reads its source and gives the new object's value, or throws. A move constructor is a
  computation on its source: it gives the new object's value and leaves the source in its
  moved-from state, or throws. For a scalar type such as \<^verbatim>\<open>int\<close> both copy the value,
  never throw and leave the source as it was.
\<close>

type_synonym ('a, 'x) copy_constructor = "'a \<Rightarrow> ('a, 'x) outcome"

type_synonym ('a, 'x) move_constructor = "('a, 'a, 'x) comp"

definition trivial_copy :: "('a, 'x) copy_constructor" where
  "trivial_copy v = Returns v"

definition trivial_move :: "('a, 'x) move_constructor" where
  "trivial_move v = (Returns v, v)"

section \<open>\<^verbatim>\<open>always_ready_future<T>\<close>\<close>

text \<open>
  The only data member is \<^verbatim>\<open>std::experimental::variant<T,std::exception_ptr> value_\<close>
  (the field \<open>m_value\<close>: a name cannot end with an underscore here).
\<close>

datatype ('a, 'x) variant =
    Alt_T 'a
  | Alt_exception_ptr "'x exception_ptr"

record ('a, 'x) always_ready_future =
  m_value :: "('a, 'x) variant"


text \<open>
  The constructors. \<^verbatim>\<open>always_ready_future(const T& value) : value_(value)\<close> and
  \<^verbatim>\<open>always_ready_future(T&& value) : value_(std::move(value))\<close> both initialise
  \<^verbatim>\<open>value_\<close> with the alternative \<^verbatim>\<open>T\<close>, the first through \<^verbatim>\<open>T\<close>'s copy constructor and
  the second through its move constructor; an exception of that constructor leaves the
  constructor of the future, and no future exists then. \<open>always_ready_future_value v\<close> is
  the object either of them makes when the \<^verbatim>\<open>T\<close> inside it has been given the value
  \<open>v\<close>. \<^verbatim>\<open>always_ready_future(std::exception_ptr e) : value_(e)\<close> initialises \<^verbatim>\<open>value_\<close>
  with a copy of the pointer, which cannot throw.
\<close>

definition always_ready_future_value :: "'a \<Rightarrow> ('a, 'x) always_ready_future" where
  "always_ready_future_value v = \<lparr>m_value = Alt_T v\<rparr>"

definition always_ready_future_copy ::
    "('a, 'x) copy_constructor \<Rightarrow> 'a \<Rightarrow> (('a, 'x) always_ready_future, 'x) outcome" where
  "always_ready_future_copy copy_T v = result_as always_ready_future_value (copy_T v)"

definition always_ready_future_move ::
    "('a, 'x) move_constructor \<Rightarrow> ('a, ('a, 'x) always_ready_future, 'x) comp" where
  "always_ready_future_move move_T v =
     (case move_T v of (r, v') \<Rightarrow> (result_as always_ready_future_value r, v'))"

definition always_ready_future_exception ::
    "'x exception_ptr \<Rightarrow> ('a, 'x) always_ready_future" where
  "always_ready_future_exception e = \<lparr>m_value = Alt_exception_ptr e\<rparr>"

text \<open>
  \<^verbatim>\<open>get_visitor\<close>. On a value, \<^verbatim>\<open>return std::move(value);\<close> move-constructs the
  result from the stored \<^verbatim>\<open>T\<close>: the outcome is that of \<^verbatim>\<open>T\<close>'s move constructor (the
  value, or its exception), and the stored \<^verbatim>\<open>T\<close> is left as the move constructor leaves
  its source. On an exception pointer, \<^verbatim>\<open>throw e;\<close> copy-initialises the exception object
  from the lvalue \<open>e\<close>: the object thrown is the pointer, the stored pointer is unchanged,
  and \<^verbatim>\<open>return T();\<close> is never reached.
\<close>

fun get_visitor :: "('a, 'x) move_constructor \<Rightarrow> (('a, 'x) variant, 'a, 'x) comp" where
  "get_visitor move_T (Alt_T v) = (case move_T v of (r, v') \<Rightarrow> (r, Alt_T v'))"
| "get_visitor move_T (Alt_exception_ptr e) = (Throws (Pointer e), Alt_exception_ptr e)"

text \<open>
  \<^verbatim>\<open>T get() { std::experimental::visit(get_visitor(), value_); }\<close>: the visitor is
  applied to the held alternative by reference. An exception of the visitor leaves
  \<^verbatim>\<open>get\<close>. When the visitor returns, its result is the value of an expression statement
  and is discarded; the body has no \<^verbatim>\<open>return\<close> statement, so control reaches the closing
  brace of a function returning \<^verbatim>\<open>T\<close>. The state given with \<open>Undefined_behaviour\<close> is the
  object's state at that point.
\<close>

definition get :: "('a, 'x) move_constructor \<Rightarrow> (('a, 'x) always_ready_future, 'a, 'x) comp" where
  "get move_T fut =
     (case get_visitor move_T (m_value fut) of
        (Returns r, var) \<Rightarrow> (Undefined_behaviour, fut\<lparr>m_value := var\<rparr>)
      | (Throws x, var) \<Rightarrow> (Throws x, fut\<lparr>m_value := var\<rparr>)
      | (Undefined_behaviour, var) \<Rightarrow> (Undefined_behaviour, fut\<lparr>m_value := var\<rparr>))"

text \<open>\<^verbatim>\<open>void wait() const {}\<close>: the body is empty.\<close>

definition wait :: "(('a, 'x) always_ready_future, unit, 'x) comp" where
  "wait fut = (Returns (), fut)"

section \<open>\<^verbatim>\<open>always_ready_future<void>\<close>\<close>

text \<open>
  The only data member is \<^verbatim>\<open>std::experimental::optional<std::exception_ptr> exception_\<close>
  (the field \<open>m_exception\<close>).
  The default constructor leaves it disengaged; the constructor from an exception pointer
  engages it with the pointer (null or not).
\<close>

record 'x always_ready_future_void =
  m_exception :: "'x exception_ptr option"

definition always_ready_future_void_default :: "'x always_ready_future_void" where
  "always_ready_future_void_default = \<lparr>m_exception = None\<rparr>"

definition always_ready_future_void_exception ::
    "'x exception_ptr \<Rightarrow> 'x always_ready_future_void" where
  "always_ready_future_void_exception e = \<lparr>m_exception = Some e\<rparr>"

text \<open>
  \<^verbatim>\<open>void get() { if(exception_) { throw exception_.value(); } }\<close>: the test is whether
  the optional is engaged; the object thrown is a copy of the stored pointer.
\<close>

definition get_void :: "('x always_ready_future_void, unit, 'x) comp" where
  "get_void fut =
     (case m_exception fut of
        Some e \<Rightarrow> (Throws (Pointer e), fut)
      | None \<Rightarrow> (Returns (), fut))"

definition wait_void :: "('x always_ready_future_void, unit, 'x) comp" where
  "wait_void fut = (Returns (), fut)"

section \<open>\<^verbatim>\<open>detail::try_invoke\<close>\<close>

text \<open>
  \<^verbatim>\<open>try { body } catch(...) { handler }\<close>: an exception of the body, whatever its type,
  enters the handler; any other outcome of the body is the outcome of the statement.
\<close>

definition try_catch_all ::
    "('s, 'r, 'x) comp \<Rightarrow> ('x thrown \<Rightarrow> ('s, 'r, 'x) comp) \<Rightarrow> ('s, 'r, 'x) comp" where
  "try_catch_all body handler s =
     (case body s of
        (Returns r, s') \<Rightarrow> (Returns r, s')
      | (Throws x, s') \<Rightarrow> handler x s'
      | (Undefined_behaviour, s') \<Rightarrow> (Undefined_behaviour, s'))"

text \<open>
  The overload for a callable whose result type is not \<^verbatim>\<open>void\<close>. A zero-argument
  callable is a computation on the state it can reach. The body of the \<^verbatim>\<open>try\<close> block is
  \<^verbatim>\<open>return always_ready_future<Result>(std::forward<Function>(f)());\<close>: the temporary
  that \<open>f\<close> returns binds to the constructor taking \<^verbatim>\<open>T&&\<close>, so the future is built inside
  the \<^verbatim>\<open>try\<close> block through \<^verbatim>\<open>T\<close>'s move constructor, and an exception of that
  constructor enters the handler like one of \<open>f\<close>; the temporary is then destroyed. The
  handler is \<^verbatim>\<open>return always_ready_future<Result>(std::current_exception());\<close>. The
  future of a \<^verbatim>\<open>return\<close> statement is built in place in the caller's result object.
\<close>

definition try_invoke ::
    "('a, 'x) move_constructor \<Rightarrow> ('s, 'a, 'x) comp \<Rightarrow>
       ('s, ('a, 'x) always_ready_future, 'x) comp" where
  "try_invoke move_T f =
     try_catch_all
       (\<lambda>s. case f s of
               (Returns v, s') \<Rightarrow> (fst (always_ready_future_move move_T v), s')
             | (Throws x, s') \<Rightarrow> (Throws x, s')
             | (Undefined_behaviour, s') \<Rightarrow> (Undefined_behaviour, s'))
       (\<lambda>x s. (Returns (always_ready_future_exception (current_exception x)), s))"

text \<open>
  The overload for a callable returning \<^verbatim>\<open>void\<close>: the body is
  \<^verbatim>\<open>std::forward<Function>(f)(); return always_ready_future<void>();\<close> and the handler
  is \<^verbatim>\<open>return always_ready_future<void>(std::current_exception());\<close>.
\<close>

definition try_invoke_void ::
    "('s, unit, 'x) comp \<Rightarrow> ('s, 'x always_ready_future_void, 'x) comp" where
  "try_invoke_void f =
     try_catch_all
       (\<lambda>s. case f s of
               (Returns u, s') \<Rightarrow> (Returns always_ready_future_void_default, s')
             | (Throws x, s') \<Rightarrow> (Throws x, s')
             | (Undefined_behaviour, s') \<Rightarrow> (Undefined_behaviour, s'))
       (\<lambda>x s. (Returns (always_ready_future_void_exception (current_exception x)), s))"

text \<open>
  The expression \<^verbatim>\<open>c.get()\<close> where \<open>c\<close> is a call that yields a temporary future:
  \<^verbatim>\<open>get\<close> runs on the temporary when \<open>c\<close> has returned it, and the temporary is dropped.
\<close>

definition then_get ::
    "('a, 'x) move_constructor \<Rightarrow> ('s, ('a, 'x) always_ready_future, 'x) comp \<Rightarrow>
       ('s, 'a, 'x) comp" where
  "then_get move_T c s =
     (case c s of
        (Returns fut, s') \<Rightarrow> (fst (get move_T fut), s')
      | (Throws x, s') \<Rightarrow> (Throws x, s')
      | (Undefined_behaviour, s') \<Rightarrow> (Undefined_behaviour, s'))"

definition then_get_void ::
    "('s, 'x always_ready_future_void, 'x) comp \<Rightarrow> ('s, unit, 'x) comp" where
  "then_get_void c s =
     (case c s of
        (Returns fut, s') \<Rightarrow> (fst (get_void fut), s')
      | (Throws x, s') \<Rightarrow> (Throws x, s')
      | (Undefined_behaviour, s') \<Rightarrow> (Undefined_behaviour, s'))"

section \<open>Sequences of \<^verbatim>\<open>wait\<close> and \<^verbatim>\<open>get\<close> on one future\<close>

datatype operation = Wait | Get

text \<open>
  The two member functions under one result type: \<^verbatim>\<open>wait\<close> returns nothing (\<open>None\<close>),
  \<^verbatim>\<open>get\<close> returns a \<^verbatim>\<open>T\<close>.
\<close>

fun apply_operation ::
    "('a, 'x) move_constructor \<Rightarrow> operation \<Rightarrow>
       (('a, 'x) always_ready_future, 'a option, 'x) comp" where
  "apply_operation move_T Wait fut =
     (case wait fut of (r, fut') \<Rightarrow> (result_as (\<lambda>u. None) r, fut'))"
| "apply_operation move_T Get fut =
     (case get move_T fut of (r, fut') \<Rightarrow> (result_as Some r, fut'))"

fun apply_operation_void :: "operation \<Rightarrow> ('x always_ready_future_void, unit, 'x) comp" where
  "apply_operation_void Wait fut = wait_void fut"
| "apply_operation_void Get fut = get_void fut"

text \<open>
  A caller that performs the operations one after the other on the same object, going on
  after an exception (it can catch it). The list holds, for every operation of the
  sequence, its outcome and the state in which its body leaves the object. Where
  \<^verbatim>\<open>get()\<close> has flowed off its end the language gives the rest of the program no meaning;
  the list goes on all the same, from the object as that body left it, so that it tells
  what the bodies of the member functions do to the object over the whole sequence.
\<close>

fun run :: "('op \<Rightarrow> ('s, 'r, 'x) comp) \<Rightarrow> 'op list \<Rightarrow> 's \<Rightarrow> (('r, 'x) outcome \<times> 's) list" where
  "run step [] s = []"
| "run step (op # ops) s =
     (case step op s of (r, s') \<Rightarrow> (r, s') # run step ops s')"

section \<open>The inline executor\<close>

text \<open>
  Modelled from the spec: \<^verbatim>\<open>inline_executor::async_execute\<close> (the header
  \<^verbatim>\<open>inline_executor.hpp\<close>, included by \<^verbatim>\<open>saxpy.cpp\<close>, is not among the sources). The
  spec: it invokes the callable synchronously on the calling thread and returns a ready
  future holding either its result or its captured failure, through the try-invoke
  helper. One definition for each overload of the helper.
\<close>

definition async_execute ::
    "('a, 'x) move_constructor \<Rightarrow> ('s, 'a, 'x) comp \<Rightarrow>
       ('s, ('a, 'x) always_ready_future, 'x) comp" where
  "async_execute move_T f = try_invoke move_T f"

definition async_execute_void ::
    "('s, unit, 'x) comp \<Rightarrow> ('s, 'x always_ready_future_void, 'x) comp" where
  "async_execute_void f = try_invoke_void f"

text \<open>The invocations an executor makes during one bulk call, in the order it makes them.\<close>

datatype invocation = Factory_a | Factory_b | Element nat

text \<open>
  Modelled from the spec: the element loop of \<^verbatim>\<open>inline_executor::bulk_sync_execute\<close>
  (not among the sources). The callable receives the index and references to the two
  shared objects, so it is a computation on the shared objects and the state of its
  caller; the same two objects are handed from one invocation to the next. The first
  failure ends the loop and propagates.
\<close>

fun invoke_elements ::
    "(nat \<Rightarrow> ('a \<times> 'b \<times> 's, unit, 'x) comp) \<Rightarrow> nat list \<Rightarrow> 'a \<times> 'b \<times> 's \<Rightarrow>
       (unit, 'x) outcome \<times> ('a \<times> 'b \<times> 's) \<times> invocation list" where
  "invoke_elements f [] t = (Returns (), t, [])"
| "invoke_elements f (i # is) t =
     (case f i t of
        (Returns u, t') \<Rightarrow>
          (case invoke_elements f is t' of (r, t'', log) \<Rightarrow> (r, t'', Element i # log))
      | (Throws x, t') \<Rightarrow> (Throws x, t', [Element i])
      | (Undefined_behaviour, t') \<Rightarrow> (Undefined_behaviour, t', [Element i]))"

text \<open>
  Modelled from the spec: \<^verbatim>\<open>inline_executor::bulk_sync_execute(f, n, fa, fb)\<close> (not among
  the sources; \<^verbatim>\<open>for_loop_bulk_sync_execute_saxpy\<close> is a caller). The spec: the two
  zero-argument factories are invoked once each, before any element invocation; the
  callable is invoked once per index in \<open>[0, n)\<close>, in index order in the inline executor;
  failures propagate to the caller. The spec does not order the two factories; here
  \<open>fa\<close> runs first. The result is the outcome, the caller's state and the invocations made.
\<close>

definition bulk_sync_execute ::
    "(nat \<Rightarrow> ('a \<times> 'b \<times> 's, unit, 'x) comp) \<Rightarrow> nat \<Rightarrow> ('s, 'a, 'x) comp \<Rightarrow> ('s, 'b, 'x) comp \<Rightarrow>
       's \<Rightarrow> (unit, 'x) outcome \<times> 's \<times> invocation list" where
  "bulk_sync_execute f n fa fb s =
     (case fa s of
        (Returns a, s1) \<Rightarrow>
          (case fb s1 of
             (Returns b, s2) \<Rightarrow>
               (case invoke_elements f [0..<n] (a, b, s2) of
                  (r, (a', b', s3), log) \<Rightarrow> (r, s3, Factory_a # Factory_b # log))
           | (Throws x, s2) \<Rightarrow> (Throws x, s2, [Factory_a, Factory_b])
           | (Undefined_behaviour, s2) \<Rightarrow> (Undefined_behaviour, s2, [Factory_a, Factory_b]))
      | (Throws x, s1) \<Rightarrow> (Throws x, s1, [Factory_a])
      | (Undefined_behaviour, s1) \<Rightarrow> (Undefined_behaviour, s1, [Factory_a]))"

section \<open>Construction, \<^verbatim>\<open>get\<close> and \<^verbatim>\<open>wait\<close>\<close>

lemma get_of_value:
  "get move_T (always_ready_future_value v) =
     (case move_T v of
        (Returns r, v') \<Rightarrow> (Undefined_behaviour, always_ready_future_value v')
      | (Throws x, v') \<Rightarrow> (Throws x, always_ready_future_value v')
      | (Undefined_behaviour, v') \<Rightarrow> (Undefined_behaviour, always_ready_future_value v'))"
  by (simp add: get_def always_ready_future_value_def split: prod.splits outcome.splits)

lemma get_trivial_of_value:
  "get trivial_move (always_ready_future_value v) =
     (Undefined_behaviour, always_ready_future_value v)"
  by (simp add: get_of_value trivial_move_def)

lemma get_of_exception:
  "get move_T (always_ready_future_exception e) =
     (Throws (Pointer e), always_ready_future_exception e)"
  by (simp add: get_def always_ready_future_exception_def)

lemma get_void_of_exception:
  "get_void (always_ready_future_void_exception e) =
     (Throws (Pointer e), always_ready_future_void_exception e)"
  by (simp add: get_void_def always_ready_future_void_exception_def)

lemma get_void_of_default:
  "get_void always_ready_future_void_default = (Returns (), always_ready_future_void_default)"
  by (simp add: get_void_def always_ready_future_void_default_def)

lemma always_ready_future_move_trivial:
  "always_ready_future_move trivial_move v = (Returns (always_ready_future_value v), v)"
  by (simp add: always_ready_future_move_def trivial_move_def)

lemma try_invoke_cases:
  "try_invoke move_T f s =
     (case f s of
        (Returns v, s') \<Rightarrow>
          (case fst (move_T v) of
             Returns v' \<Rightarrow> (Returns (always_ready_future_value v'), s')
           | Throws x \<Rightarrow> (Returns (always_ready_future_exception (Some x)), s')
           | Undefined_behaviour \<Rightarrow> (Undefined_behaviour, s'))
      | (Throws x, s') \<Rightarrow> (Returns (always_ready_future_exception (Some x)), s')
      | (Undefined_behaviour, s') \<Rightarrow> (Undefined_behaviour, s'))"
  by (simp add: try_invoke_def try_catch_all_def current_exception_def
        always_ready_future_move_def split: prod.splits outcome.splits)

lemma try_invoke_void_cases:
  "try_invoke_void f s =
     (case f s of
        (Returns u, s') \<Rightarrow> (Returns always_ready_future_void_default, s')
      | (Throws x, s') \<Rightarrow> (Returns (always_ready_future_void_exception (Some x)), s')
      | (Undefined_behaviour, s') \<Rightarrow> (Undefined_behaviour, s'))"
  by (simp add: try_invoke_void_def try_catch_all_def current_exception_def
           split: prod.splits outcome.splits)

section \<open>The claims about the future classes and \<^verbatim>\<open>try_invoke\<close>\<close>

text \<open>
  C1 says that a future constructed from a value \<open>v\<close> returns a value equal to \<open>v\<close> from
  \<^verbatim>\<open>get()\<close>. The visitor does produce \<open>v\<close>, but \<^verbatim>\<open>get\<close> discards it and has no
  \<^verbatim>\<open>return\<close> statement: for \<^verbatim>\<open>always_ready_future<int>(7).get()\<close> control flows off the end
  of the function and no value is returned.
\<close>

theorem get_of_value_returns_nothing:
  "always_ready_future_move trivial_move (7::int)
     = (Returns (always_ready_future_value 7 :: (int, int) always_ready_future), 7)
   \<and> get trivial_move (always_ready_future_value (7::int) :: (int, int) always_ready_future)
     = (Undefined_behaviour, always_ready_future_value 7)
   \<and> fst (get trivial_move (always_ready_future_value (7::int) :: (int, int) always_ready_future))
     \<noteq> Returns 7"
  by (simp add: get_trivial_of_value always_ready_future_move_trivial)

text \<open>
  C2 says that \<^verbatim>\<open>get()\<close> on a future constructed from a captured failure re-raises
  that failure. On the code, for a future constructed from a pointer to the captured
  \<^verbatim>\<open>int\<close> \<open>1\<close> (\<^verbatim>\<open>std::make_exception_ptr(1)\<close>), \<^verbatim>\<open>throw e;\<close> and
  \<^verbatim>\<open>throw exception_.value();\<close> throw the pointer object itself: the exception that leaves
  \<^verbatim>\<open>get()\<close> is a \<^verbatim>\<open>std::exception_ptr\<close>, not the captured \<open>1\<close>, in the general class and in
  the \<^verbatim>\<open>void\<close> specialisation.
\<close>

theorem get_throws_pointer_not_failure:
  "fst (get trivial_move
          (always_ready_future_exception (Some (Object (1::int))) :: (int, int) always_ready_future))
     = Throws (Pointer (Some (Object 1)))
   \<and> fst (get trivial_move
          (always_ready_future_exception (Some (Object (1::int))) :: (int, int) always_ready_future))
     \<noteq> Throws (Object 1)
   \<and> fst (get_void (always_ready_future_void_exception (Some (Object (1::int)))))
     = Throws (Pointer (Some (Object 1)))
   \<and> fst (get_void (always_ready_future_void_exception (Some (Object (1::int)))))
     \<noteq> Throws (Object 1)"
  by (simp add: get_of_exception get_void_of_exception)

text \<open>
  C3: \<^verbatim>\<open>wait()\<close> returns at once, raises nothing and leaves the stored state as it was,
  whatever the future holds, so that \<^verbatim>\<open>get()\<close> after \<^verbatim>\<open>wait()\<close> does what \<^verbatim>\<open>get()\<close>
  alone would have done; for the general class and for the \<^verbatim>\<open>void\<close> specialisation.
\<close>

theorem wait_is_no_op:
  "wait fut = (Returns (), fut)
   \<and> get move_T (snd (wait fut)) = get move_T fut
   \<and> wait_void vfut = (Returns (), vfut)
   \<and> get_void (snd (wait_void vfut)) = get_void vfut"
  by (simp add: wait_def wait_void_def)

text \<open>
  C4: \<^verbatim>\<open>try_invoke(f)\<close> never leaves by an exception, for either overload. A failure
  \<open>x\<close> raised by \<open>f\<close> is captured: the call returns a future of the matching class whose
  member holds the error alternative, namely the non-null pointer to \<open>x\<close> (for the
  \<^verbatim>\<open>void\<close> class, an engaged optional holding that pointer). The same happens to a
  failure \<open>x\<close> of \<^verbatim>\<open>T\<close>'s move constructor while the future is built from the value
  that \<open>f\<close> returned.
\<close>

theorem try_invoke_never_raises:
  "(\<forall>y. fst (try_invoke move_T f s) \<noteq> Throws y)
   \<and> (\<forall>y. fst (try_invoke_void g s) \<noteq> Throws y)
   \<and> (\<forall>x s'. f s = (Throws x, s') \<longrightarrow>
         try_invoke move_T f s = (Returns \<lparr>m_value = Alt_exception_ptr (Some x)\<rparr>, s'))
   \<and> (\<forall>x s'. g s = (Throws x, s') \<longrightarrow>
         try_invoke_void g s = (Returns \<lparr>m_exception = Some (Some x)\<rparr>, s'))
   \<and> (\<forall>v s' x. f s = (Returns v, s') \<longrightarrow> fst (move_T v) = Throws x \<longrightarrow>
         try_invoke move_T f s = (Returns \<lparr>m_value = Alt_exception_ptr (Some x)\<rparr>, s'))"
  by (simp add: try_invoke_cases try_invoke_void_cases always_ready_future_exception_def
        always_ready_future_void_exception_def split: prod.splits outcome.splits)

theorem try_invoke_never_raises_witness:
  "(\<lambda>s::nat. (Throws (Object (1::int)) :: (int, int) outcome, Suc s)) 0 = (Throws (Object 1), 1)
   \<and> try_invoke trivial_move (\<lambda>s::nat. (Throws (Object (1::int)) :: (int, int) outcome, Suc s)) 0
       = (Returns \<lparr>m_value = Alt_exception_ptr (Some (Object 1))\<rparr>, 1)
   \<and> (\<lambda>s::nat. (Throws (Object (1::int)) :: (unit, int) outcome, Suc s)) 0 = (Throws (Object 1), 1)
   \<and> try_invoke_void (\<lambda>s::nat. (Throws (Object (1::int)) :: (unit, int) outcome, Suc s)) 0
       = (Returns \<lparr>m_exception = Some (Some (Object 1))\<rparr>, 1)
   \<and> (\<lambda>s::nat. (Returns (7::int) :: (int, int) outcome, Suc s)) 0 = (Returns 7, 1)
   \<and> fst ((\<lambda>v::int. (Throws (Object (2::int)) :: (int, int) outcome, v)) 7) = Throws (Object 2)
   \<and> try_invoke (\<lambda>v::int. (Throws (Object (2::int)) :: (int, int) outcome, v))
        (\<lambda>s::nat. (Returns (7::int) :: (int, int) outcome, Suc s)) 0
       = (Returns \<lparr>m_value = Alt_exception_ptr (Some (Object 2))\<rparr>, 1)"
proof -
  let ?f = "\<lambda>s::nat. (Throws (Object (1::int)) :: (int, int) outcome, Suc s)"
  let ?g = "\<lambda>s::nat. (Throws (Object (1::int)) :: (unit, int) outcome, Suc s)"
  let ?h = "\<lambda>s::nat. (Returns (7::int) :: (int, int) outcome, Suc s)"
  let ?mv = "\<lambda>v::int. (Throws (Object (2::int)) :: (int, int) outcome, v)"
  have f: "?f 0 = (Throws (Object 1), 1)" by simp
  have g: "?g 0 = (Throws (Object 1), 1)" by simp
  have h: "?h 0 = (Returns 7, 1)" by simp
  have mv: "fst (?mv 7) = Throws (Object 2)" by simp
  from try_invoke_never_raises [of trivial_move ?f 0 ?g] f g
  have c1: "try_invoke trivial_move ?f 0
       = (Returns \<lparr>m_value = Alt_exception_ptr (Some (Object 1))\<rparr>, 1)"
    and c2: "try_invoke_void ?g 0 = (Returns \<lparr>m_exception = Some (Some (Object 1))\<rparr>, 1)"
    by blast+
  from try_invoke_never_raises [of ?mv ?h 0 ?g] h mv
  have c3: "try_invoke ?mv ?h 0 = (Returns \<lparr>m_value = Alt_exception_ptr (Some (Object 2))\<rparr>, 1)"
    by blast
  from f g h mv c1 c2 c3 show ?thesis by blast
qed

text \<open>
  C5 says that \<^verbatim>\<open>try_invoke(f).get()\<close> equals \<open>v\<close> when \<open>f\<close> returns \<open>v\<close>, and raises
  a failure equivalent to \<open>x\<close> when \<open>f\<close> raises \<open>x\<close>. On the code, for \<open>f\<close> returning
  \<open>7\<close> the call of \<^verbatim>\<open>get\<close> flows off the end of the function without a value; for \<open>f\<close>
  throwing the object \<open>1\<close> the exception that leaves \<^verbatim>\<open>get\<close> is not that object but a
  \<^verbatim>\<open>std::exception_ptr\<close> referring to it (\<^verbatim>\<open>throw e;\<close>), in both classes.
\<close>

theorem try_invoke_get_diverges:
  "then_get trivial_move
     (try_invoke trivial_move (\<lambda>s::unit. (Returns (7::int) :: (int, int) outcome, s))) ()
     = (Undefined_behaviour, ())
   \<and> (\<lambda>s::unit. (Throws (Object (1::int)) :: (int, int) outcome, s)) () = (Throws (Object 1), ())
   \<and> then_get trivial_move
     (try_invoke trivial_move (\<lambda>s::unit. (Throws (Object (1::int)) :: (int, int) outcome, s))) ()
     = (Throws (Pointer (Some (Object 1))), ())
   \<and> then_get_void (try_invoke_void (\<lambda>s::unit. (Throws (Object (1::int)) :: (unit, int) outcome, s))) ()
     = (Throws (Pointer (Some (Object 1))), ())"
  by (simp add: then_get_def then_get_void_def try_invoke_cases try_invoke_void_cases
        get_trivial_of_value get_of_exception get_void_of_exception trivial_move_def)

section \<open>Sequences of operations\<close>






lemma run_get_exception:
  "run (apply_operation move_T) (replicate n Get) (always_ready_future_exception e) =
     replicate n (Throws (Pointer e), always_ready_future_exception e)"
  by (induction n) (simp_all add: get_of_exception)

lemma run_get_void_exception:
  "run apply_operation_void (replicate n Get) (always_ready_future_void_exception e) =
     replicate n (Throws (Pointer e), always_ready_future_void_exception e)"
  by (induction n) (simp_all add: get_void_of_exception)

lemma run_void_default:
  "run apply_operation_void ops always_ready_future_void_default =
     replicate (length ops) (Returns (), always_ready_future_void_default)"
proof (induction ops)
  case Nil
  then show ?case by simp
next
  case (Cons op ops)
  then show ?case by (cases op) (simp_all add: wait_void_def get_void_of_default)
qed

text \<open>
  C6: for the \<^verbatim>\<open>void\<close> specialisation, \<^verbatim>\<open>get()\<close> on a future constructed from a captured
  failure \<open>e\<close> raises, and on a default-constructed future (no error) it never raises:
  every operation of every sequence of \<^verbatim>\<open>wait()\<close> and \<^verbatim>\<open>get()\<close> on it returns.
\<close>

theorem get_void_raises_only_with_exception:
  "fst (get_void (always_ready_future_void_exception e)) = Throws (Pointer e)
   \<and> fst (get_void always_ready_future_void_default) = Returns ()
   \<and> map fst (run apply_operation_void ops always_ready_future_void_default) =
       replicate (length ops) (Returns ())"
  by (simp add: get_void_of_exception get_void_of_default run_void_default)



section \<open>The executor\<close>

lemma invoke_elements_returns:
  "invoke_elements f is t = (Returns (), t', log) \<Longrightarrow> log = map Element is"
proof (induction "is" arbitrary: t log)
  case Nil
  then show ?case by simp
next
  case (Cons i "is")
  obtain q u where fi: "f i t = (q, u)" by (cases "f i t")
  show ?case
  proof (cases q)
    case (Returns v)
    obtain r u' log' where rest: "invoke_elements f is u = (r, u', log')"
      by (cases "invoke_elements f is u")
    with Cons.prems fi Returns have "r = Returns ()" "u' = t'" "log = Element i # log'"
      by simp_all
    with rest Cons.IH [of u log'] show ?thesis by simp
  next
    case (Throws x)
    with Cons.prems fi show ?thesis by simp
  next
    case Undefined_behaviour
    with Cons.prems fi show ?thesis by simp
  qed
qed

lemma invoke_elements_log:
  "\<exists>k\<le>length is. snd (snd (invoke_elements f is t)) = map Element (take k is)"
proof (induction "is" arbitrary: t)
  case Nil
  then show ?case by simp
next
  case (Cons i "is")
  obtain q u where fi: "f i t = (q, u)" by (cases "f i t")
  show ?case
  proof (cases q)
    case (Returns v)
    from Cons.IH [of u] obtain k where k: "k \<le> length is"
      "snd (snd (invoke_elements f is u)) = map Element (take k is)" by blast
    obtain r u' log' where rest: "invoke_elements f is u = (r, u', log')"
      by (cases "invoke_elements f is u")
    have "snd (snd (invoke_elements f (i # is) t)) = map Element (take (Suc k) (i # is))"
      using fi Returns k(2) rest by simp
    moreover have "Suc k \<le> length (i # is)" using k(1) by simp
    ultimately show ?thesis by blast
  next
    case (Throws x)
    have "snd (snd (invoke_elements f (i # is) t)) = map Element (take (Suc 0) (i # is))"
      using fi Throws by simp
    then show ?thesis by (intro exI [of _ "Suc 0"]) simp
  next
    case Undefined_behaviour
    have "snd (snd (invoke_elements f (i # is) t)) = map Element (take (Suc 0) (i # is))"
      using fi Undefined_behaviour by simp
    then show ?thesis by (intro exI [of _ "Suc 0"]) simp
  qed
qed

lemma count_list_Element_upt:
  "count_list (map Element [0..<n]) (Element i) = (if i < n then 1 else 0)"
  by (induction n) auto

lemma count_list_factory_upt:
  "count_list (map Element is) Factory_a = 0" "count_list (map Element is) Factory_b = 0"
  by (induction "is") auto

lemma bulk_sync_execute_returns:
  assumes "bulk_sync_execute f n fa fb s = (Returns (), s', log)"
  shows "log = [Factory_a, Factory_b] @ map Element [0..<n]"
proof -
  obtain qa s1 where a: "fa s = (qa, s1)" by (cases "fa s")
  obtain qb s2 where b: "fb s1 = (qb, s2)" by (cases "fb s1")
  from assms a obtain va where qa: "qa = Returns va"
    by (cases qa) (simp_all add: bulk_sync_execute_def)
  from assms a b qa obtain vb where qb: "qb = Returns vb"
    by (cases qb) (simp_all add: bulk_sync_execute_def)
  obtain r t elog where e: "invoke_elements f [0..<n] (va, vb, s2) = (r, t, elog)"
    by (cases "invoke_elements f [0..<n] (va, vb, s2)")
  from assms a b qa qb e have "r = Returns ()" "log = Factory_a # Factory_b # elog"
    by (simp_all add: bulk_sync_execute_def split: prod.splits)
  with invoke_elements_returns [of f "[0..<n]" "(va, vb, s2)" t elog] e show ?thesis by simp
qed

lemma bulk_sync_execute_factories:
  assumes "fa s = (Returns a, s1)" "fb s1 = (Returns b, s2)"
  shows "\<exists>k\<le>n. snd (snd (bulk_sync_execute f n fa fb s)) =
           [Factory_a, Factory_b] @ map Element [0..<k]"
proof -
  from invoke_elements_log [of "[0..<n]" f "(a, b, s2)"] obtain k where
    k: "k \<le> n" "snd (snd (invoke_elements f [0..<n] (a, b, s2))) = map Element (take k [0..<n])"
    by auto
  obtain r a' b' s3 elog where
    e: "invoke_elements f [0..<n] (a, b, s2) = (r, (a', b', s3), elog)"
    by (cases "invoke_elements f [0..<n] (a, b, s2)") auto
  have "take k [0..<n] = [0..<k]" using k(1) by simp
  with k(2) assms e have "snd (snd (bulk_sync_execute f n fa fb s)) =
           [Factory_a, Factory_b] @ map Element [0..<k]"
    by (simp add: bulk_sync_execute_def)
  with k(1) show ?thesis by blast
qed

text \<open>
  C8: when \<^verbatim>\<open>bulk_sync_execute(f, n, fa, fb)\<close> returns without a failure, its invocations
  are \<open>fa\<close> and \<open>fb\<close> once each, then \<open>f\<close> once for each index of \<open>[0, n)\<close> and for no
  other index, for every \<open>n\<close>, zero included. Whenever the two factories return, with or
  without a failure of \<open>f\<close>, they are invoked once each and before every element
  invocation.
\<close>

theorem bulk_sync_execute_invocations:
  "(\<forall>s' log. bulk_sync_execute f n fa fb s = (Returns (), s', log) \<longrightarrow>
       log = [Factory_a, Factory_b] @ map Element [0..<n]
       \<and> (\<forall>i. count_list log (Element i) = (if i < n then 1 else 0))
       \<and> count_list log Factory_a = 1 \<and> count_list log Factory_b = 1)
   \<and> (\<forall>a s1 b s2. fa s = (Returns a, s1) \<longrightarrow> fb s1 = (Returns b, s2) \<longrightarrow>
         (\<exists>k\<le>n. snd (snd (bulk_sync_execute f n fa fb s)) =
            [Factory_a, Factory_b] @ map Element [0..<k]))"
proof (intro conjI allI impI)
  fix s' log
  assume r: "bulk_sync_execute f n fa fb s = (Returns (), s', log)"
  from bulk_sync_execute_returns [OF r]
  show log: "log = [Factory_a, Factory_b] @ map Element [0..<n]" .
  show "count_list log (Element i) = (if i < n then 1 else 0)" for i
    unfolding log by (simp add: count_list_Element_upt)
  show "count_list log Factory_a = 1" unfolding log by (simp add: count_list_factory_upt)
  show "count_list log Factory_b = 1" unfolding log by (simp add: count_list_factory_upt)
next
  fix a s1 b s2
  assume "fa s = (Returns a, s1)" "fb s1 = (Returns b, s2)"
  then show "\<exists>k\<le>n. snd (snd (bulk_sync_execute f n fa fb s)) =
            [Factory_a, Factory_b] @ map Element [0..<k]"
    by (rule bulk_sync_execute_factories)
qed

lemma upt_4: "[0..<4] = [0, 1, 2, 3]"
  by (simp add: upt_rec)

theorem bulk_sync_execute_invocations_witness:
  "bulk_sync_execute
     (\<lambda>i (a, b, z). (Returns () :: (unit, int) outcome, (a, b, z[i := 2 * int i])))
     4 (\<lambda>z. (Returns (), z)) (\<lambda>z. (Returns (), z)) [0, 0, 0, 0]
   = (Returns (), [0, 2, 4, 6],
      [Factory_a, Factory_b, Element 0, Element 1, Element 2, Element 3])
   \<and> [Factory_a, Factory_b, Element 0, Element 1, Element 2, Element 3]
      = [Factory_a, Factory_b] @ map Element [0..<4]
   \<and> bulk_sync_execute
     (\<lambda>i (a, b, z). (Throws (Object i) :: (unit, nat) outcome, (a, b, z)))
     0 (\<lambda>z. (Returns (), z)) (\<lambda>z. (Returns (), z)) ([] :: int list)
   = (Returns (), [], [Factory_a, Factory_b])
   \<and> bulk_sync_execute
     (\<lambda>i (a, b, z). (Throws (Object i) :: (unit, nat) outcome, (a, b, z)))
     3 (\<lambda>z. (Returns (), z)) (\<lambda>z. (Returns (), z)) ([] :: int list)
   = (Throws (Object 0), [], [Factory_a, Factory_b, Element 0])
   \<and> (\<exists>k\<le>3. snd (snd (bulk_sync_execute
     (\<lambda>i (a, b, z). (Throws (Object i) :: (unit, nat) outcome, (a, b, z)))
     3 (\<lambda>z. (Returns (), z)) (\<lambda>z. (Returns (), z)) ([] :: int list)))
   = [Factory_a, Factory_b] @ map Element [0..<k])"
proof -
  let ?f = "\<lambda>i (a :: unit, b :: unit, z). (Returns () :: (unit, int) outcome, (a, b, z[i := 2 * int i]))"
  let ?g = "\<lambda>i (a :: unit, b :: unit, z :: int list). (Throws (Object i) :: (unit, nat) outcome, (a, b, z))"
  let ?fa = "\<lambda>z :: int list. (Returns () :: (unit, int) outcome, z)"
  let ?ga = "\<lambda>z :: int list. (Returns () :: (unit, nat) outcome, z)"
  have c1: "bulk_sync_execute ?f 4 ?fa ?fa [0, 0, 0, 0]
     = (Returns (), [0, 2, 4, 6],
        [Factory_a, Factory_b, Element 0, Element 1, Element 2, Element 3])"
    by (simp add: bulk_sync_execute_def upt_4)
  have c2: "bulk_sync_execute ?g 0 ?ga ?ga [] = (Returns (), [], [Factory_a, Factory_b])"
    by (simp add: bulk_sync_execute_def)
  have c3: "bulk_sync_execute ?g 3 ?ga ?ga [] =
      (Throws (Object 0), [], [Factory_a, Factory_b, Element 0])"
    by (simp add: bulk_sync_execute_def upt_rec [of 0])
  have c4: "?ga [] = (Returns (), [])" by simp
  from bulk_sync_execute_invocations [of ?g 3 ?ga ?ga "[]"] c4
  have c5: "\<exists>k\<le>3. snd (snd (bulk_sync_execute ?g 3 ?ga ?ga [])) =
      [Factory_a, Factory_b] @ map Element [0..<k]" by blast
  from bulk_sync_execute_invocations [of ?f 4 ?fa ?fa "[0, 0, 0, 0]"] c1
  have "[Factory_a, Factory_b, Element 0, Element 1, Element 2, Element 3]
      = [Factory_a, Factory_b] @ map Element [0..<4]" by blast
  with c1 c2 c3 c5 show ?thesis by blast
qed

text \<open>
  C9 says that the future \<^verbatim>\<open>async_execute(f)\<close> returns gives from \<^verbatim>\<open>get()\<close> what calling
  \<open>f\<close> would have given. The failure of \<open>f\<close> is indeed captured, not raised by
  \<^verbatim>\<open>async_execute\<close>. But for \<open>f\<close> returning \<open>7\<close>, \<^verbatim>\<open>get()\<close> flows off the end of the
  function without a value, and for a \<^verbatim>\<open>void\<close> callable throwing the object \<open>1\<close>, the
  exception that leaves \<^verbatim>\<open>get()\<close> is a \<^verbatim>\<open>std::exception_ptr\<close> referring to that object,
  not the object.
\<close>

theorem async_execute_get_diverges:
  "async_execute trivial_move (\<lambda>s::unit. (Returns (7::int) :: (int, int) outcome, s)) ()
     = (Returns (always_ready_future_value 7), ())
   \<and> then_get trivial_move
       (async_execute trivial_move (\<lambda>s::unit. (Returns (7::int) :: (int, int) outcome, s))) ()
     = (Undefined_behaviour, ())
   \<and> async_execute_void (\<lambda>s::unit. (Throws (Object (1::int)) :: (unit, int) outcome, s)) ()
     = (Returns (always_ready_future_void_exception (Some (Object 1))), ())
   \<and> then_get_void (async_execute_void (\<lambda>s::unit. (Throws (Object (1::int)) :: (unit, int) outcome, s))) ()
     = (Throws (Pointer (Some (Object 1))), ())"
proof -
  let ?f = "\<lambda>s::unit. (Returns (7::int) :: (int, int) outcome, s)"
  let ?g = "\<lambda>s::unit. (Throws (Object (1::int)) :: (unit, int) outcome, s)"
  have a: "async_execute trivial_move ?f () = (Returns (always_ready_future_value 7), ())"
    by (simp add: async_execute_def try_invoke_cases trivial_move_def)
  have b: "async_execute_void ?g ()
     = (Returns (always_ready_future_void_exception (Some (Object 1))), ())"
    by (simp add: async_execute_void_def try_invoke_void_cases)
  have c: "then_get trivial_move (async_execute trivial_move ?f) () = (Undefined_behaviour, ())"
    by (simp add: then_get_def a get_trivial_of_value)
  have d: "then_get_void (async_execute_void ?g) () = (Throws (Pointer (Some (Object 1))), ())"
    by (simp add: then_get_void_def b get_void_of_exception)
  show ?thesis by (intro conjI a b c d)
qed

section \<open>Repeated \<^verbatim>\<open>get\<close> on an error-holding future\<close>

text \<open>
  C10: \<^verbatim>\<open>get()\<close> on an error-holding future leaves the stored error as it was, so any
  number \<open>n\<close> of calls of \<^verbatim>\<open>get()\<close> in a row each raise the same stored failure and
  leave the same state; for the general class and for the \<^verbatim>\<open>void\<close> specialisation.
\<close>

theorem get_on_error_repeatable:
  "run (apply_operation move_T) (replicate n Get) (always_ready_future_exception e) =
     replicate n (Throws (Pointer e), always_ready_future_exception e)
   \<and> run apply_operation_void (replicate n Get) (always_ready_future_void_exception e) =
     replicate n (Throws (Pointer e), always_ready_future_void_exception e)"
  by (simp add: run_get_exception run_get_void_exception)

end
